theory Spec2Isabelle
  imports Main
begin

section \<open>The syntax tree read by \<open>src/utils/hasReturnValue.js\<close>\<close>

text \<open>
  The traversals of \<open>hasReturnValue.js\<close> dispatch on the \<open>type\<close> tag of an ESTree node
  and read a few fields of each kind.  A node is modelled as a datatype with one constructor
  for every group of kinds that the source reads through the same fields; the kind itself is
  kept as a tag, so that \<open>nodeType\<close> gives back the string of the \<open>type\<close> property.
  Only the fields that the source reads are kept, and the \<open>test\<close> of a \<open>for\<close> statement
  beside them: no traversal reads it, which is what distinguishes that loop from \<open>while\<close>
  and \<open>do\<close>.  A field that the parser may leave \<open>null\<close> (or that a kind of the group
  does not have) is an \<open>option\<close>.  \<open>Other k\<close> stands for a node of a kind \<open>k\<close> that is none of
  the kinds of the other constructors.
\<close>

datatype litval = LitBool bool | LitNull | LitNumber int | LitString string

datatype signatureKind = TSDeclareFunction | TSFunctionType | TSMethodSignature
datatype methodKind = MethodDefinition | ClassMethod
datatype functionKind = FunctionExpression | FunctionDeclaration | ArrowFunctionExpression
datatype loopKind = WhileStatement | DoWhileStatement
datatype wrapperKind =
  LabeledStatement | ForInStatement | ForOfStatement | WithStatement
datatype callKind = CallExpression | OptionalCallExpression
datatype expressionKind = ChainExpression | Decorator | ExpressionStatement
datatype arrayKind = ArrayPattern | ArrayExpression
datatype binaryKind = AssignmentExpression | BinaryExpression | LogicalExpression
datatype sequenceKind = SequenceExpression | TemplateLiteral
datatype objectKind = ObjectPattern | ObjectExpression
datatype propertyKind = ObjectProperty | PropertyDefinition | ClassProperty | Property
datatype classKind = ClassExpression | ClassDeclaration
datatype argumentKind = AwaitExpression | SpreadElement | UnaryExpression | YieldExpression
datatype memberKind = OptionalMemberExpression | MemberExpression
datatype importKind = Import | ImportExpression

datatype node =
    Identifier string
    \<comment> \<open>\<open>name\<close>\<close>
  | Literal litval
    \<comment> \<open>\<open>value\<close>\<close>
  | Signature signatureKind "node option"
    \<comment> \<open>\<open>returnType.typeAnnotation\<close>, \<open>None\<close> when \<open>returnType\<close> is missing\<close>
  | Method methodKind "node list option" bool node node
    \<comment> \<open>\<open>decorators\<close> (\<open>None\<close> when missing), \<open>computed\<close>, \<open>key\<close>, \<open>value\<close>\<close>
  | Function functionKind bool "node list" node
    \<comment> \<open>\<open>expression\<close> (a missing property reads as false), \<open>params\<close>, \<open>body\<close>\<close>
  | BlockStatement "node list"
    \<comment> \<open>\<open>body\<close>\<close>
  | ClassBody "node list"
    \<comment> \<open>\<open>body\<close>\<close>
  | Loop loopKind node node
    \<comment> \<open>\<open>test\<close>, \<open>body\<close>\<close>
  | ForStatement "node option" node
    \<comment> \<open>\<open>test\<close>, \<open>body\<close>\<close>
  | Wrapper wrapperKind node
    \<comment> \<open>\<open>body\<close>\<close>
  | IfStatement node node "node option"
    \<comment> \<open>\<open>test\<close>, \<open>consequent\<close>, \<open>alternate\<close>\<close>
  | ConditionalExpression node node node
    \<comment> \<open>\<open>test\<close>, \<open>consequent\<close>, \<open>alternate\<close>\<close>
  | TryStatement node "node option" "node option"
    \<comment> \<open>\<open>block\<close>, \<open>handler.body\<close> (\<open>None\<close> when \<open>handler\<close> is null), \<open>finalizer\<close>\<close>
  | SwitchStatement "node list list"
    \<comment> \<open>the \<open>consequent\<close> of every element of \<open>cases\<close>\<close>
  | ReturnStatement "node option"
    \<comment> \<open>\<open>argument\<close>\<close>
  | ThrowStatement
  | BreakStatement
  | NewExpression node "node list" "node list option"
    \<comment> \<open>\<open>callee\<close>, \<open>arguments\<close>, \<open>typeParameters.params\<close>\<close>
  | Call callKind node "node list"
    \<comment> \<open>\<open>callee\<close>, \<open>arguments\<close>\<close>
  | Expression expressionKind node
    \<comment> \<open>\<open>expression\<close>\<close>
  | Array arrayKind "node option list"
    \<comment> \<open>\<open>elements\<close>, a hole being \<open>None\<close>\<close>
  | AssignmentPattern node
    \<comment> \<open>\<open>right\<close>\<close>
  | Binary binaryKind node node
    \<comment> \<open>\<open>left\<close>, \<open>right\<close>\<close>
  | Sequence sequenceKind "node list"
    \<comment> \<open>\<open>expressions\<close>\<close>
  | Object objectKind "node list"
    \<comment> \<open>\<open>properties\<close>\<close>
  | PropertyNode propertyKind bool node "node option"
    \<comment> \<open>\<open>computed\<close>, \<open>key\<close>, \<open>value\<close>\<close>
  | ObjectMethod bool node "node list"
    \<comment> \<open>\<open>computed\<close>, \<open>key\<close>, \<open>arguments\<close>: the fields that the source reads of this kind\<close>
  | Class classKind node
    \<comment> \<open>\<open>body\<close>\<close>
  | Argument argumentKind "node option"
    \<comment> \<open>\<open>argument\<close>\<close>
  | VariableDeclaration "node list"
    \<comment> \<open>\<open>declarations\<close>\<close>
  | VariableDeclarator node "node option"
    \<comment> \<open>\<open>id\<close>, \<open>init\<close>\<close>
  | TaggedTemplateExpression node
    \<comment> \<open>\<open>quasi\<close>\<close>
  | Member memberKind node node
    \<comment> \<open>\<open>object\<close>, \<open>property\<close>\<close>
  | ImportNode importKind "node option"
    \<comment> \<open>\<open>source\<close>\<close>
  | Other string
    \<comment> \<open>a node of any other kind, of which the source reads the \<open>type\<close> only\<close>


text \<open>The \<open>type\<close> property of a node.\<close>

fun nodeType :: "node \<Rightarrow> string" where
  "nodeType (Identifier _) = ''Identifier''"
| "nodeType (Literal _) = ''Literal''"
| "nodeType (Signature TSDeclareFunction _) = ''TSDeclareFunction''"
| "nodeType (Signature TSFunctionType _) = ''TSFunctionType''"
| "nodeType (Signature TSMethodSignature _) = ''TSMethodSignature''"
| "nodeType (Method MethodDefinition _ _ _ _) = ''MethodDefinition''"
| "nodeType (Method ClassMethod _ _ _ _) = ''ClassMethod''"
| "nodeType (Function FunctionExpression _ _ _) = ''FunctionExpression''"
| "nodeType (Function FunctionDeclaration _ _ _) = ''FunctionDeclaration''"
| "nodeType (Function ArrowFunctionExpression _ _ _) = ''ArrowFunctionExpression''"
| "nodeType (BlockStatement _) = ''BlockStatement''"
| "nodeType (ClassBody _) = ''ClassBody''"
| "nodeType (Loop WhileStatement _ _) = ''WhileStatement''"
| "nodeType (Loop DoWhileStatement _ _) = ''DoWhileStatement''"
| "nodeType (Wrapper LabeledStatement _) = ''LabeledStatement''"
| "nodeType (ForStatement _ _) = ''ForStatement''"
| "nodeType (Wrapper ForInStatement _) = ''ForInStatement''"
| "nodeType (Wrapper ForOfStatement _) = ''ForOfStatement''"
| "nodeType (Wrapper WithStatement _) = ''WithStatement''"
| "nodeType (IfStatement _ _ _) = ''IfStatement''"
| "nodeType (ConditionalExpression _ _ _) = ''ConditionalExpression''"
| "nodeType (TryStatement _ _ _) = ''TryStatement''"
| "nodeType (SwitchStatement _) = ''SwitchStatement''"
| "nodeType (ReturnStatement _) = ''ReturnStatement''"
| "nodeType ThrowStatement = ''ThrowStatement''"
| "nodeType BreakStatement = ''BreakStatement''"
| "nodeType (NewExpression _ _ _) = ''NewExpression''"
| "nodeType (Call CallExpression _ _) = ''CallExpression''"
| "nodeType (Call OptionalCallExpression _ _) = ''OptionalCallExpression''"
| "nodeType (Expression ChainExpression _) = ''ChainExpression''"
| "nodeType (Expression Decorator _) = ''Decorator''"
| "nodeType (Expression ExpressionStatement _) = ''ExpressionStatement''"
| "nodeType (Array ArrayPattern _) = ''ArrayPattern''"
| "nodeType (Array ArrayExpression _) = ''ArrayExpression''"
| "nodeType (AssignmentPattern _) = ''AssignmentPattern''"
| "nodeType (Binary AssignmentExpression _ _) = ''AssignmentExpression''"
| "nodeType (Binary BinaryExpression _ _) = ''BinaryExpression''"
| "nodeType (Binary LogicalExpression _ _) = ''LogicalExpression''"
| "nodeType (Sequence SequenceExpression _) = ''SequenceExpression''"
| "nodeType (Sequence TemplateLiteral _) = ''TemplateLiteral''"
| "nodeType (Object ObjectPattern _) = ''ObjectPattern''"
| "nodeType (Object ObjectExpression _) = ''ObjectExpression''"
| "nodeType (PropertyNode ObjectProperty _ _ _) = ''ObjectProperty''"
| "nodeType (PropertyNode PropertyDefinition _ _ _) = ''PropertyDefinition''"
| "nodeType (PropertyNode ClassProperty _ _ _) = ''ClassProperty''"
| "nodeType (PropertyNode Property _ _ _) = ''Property''"
| "nodeType (ObjectMethod _ _ _) = ''ObjectMethod''"
| "nodeType (Class ClassExpression _) = ''ClassExpression''"
| "nodeType (Class ClassDeclaration _) = ''ClassDeclaration''"
| "nodeType (Argument AwaitExpression _) = ''AwaitExpression''"
| "nodeType (Argument SpreadElement _) = ''SpreadElement''"
| "nodeType (Argument UnaryExpression _) = ''UnaryExpression''"
| "nodeType (Argument YieldExpression _) = ''YieldExpression''"
| "nodeType (VariableDeclaration _) = ''VariableDeclaration''"
| "nodeType (VariableDeclarator _ _) = ''VariableDeclarator''"
| "nodeType (TaggedTemplateExpression _) = ''TaggedTemplateExpression''"
| "nodeType (Member OptionalMemberExpression _ _) = ''OptionalMemberExpression''"
| "nodeType (Member MemberExpression _ _) = ''MemberExpression''"
| "nodeType (ImportNode Import _) = ''Import''"
| "nodeType (ImportNode ImportExpression _) = ''ImportExpression''"
| "nodeType (Other k) = k"

text \<open>
  The \<open>name\<close> property of a node: of the kinds above only an identifier has one, and on
  every other node the property reads as \<open>undefined\<close>, here \<open>None\<close>.
\<close>

fun nodeName :: "node \<Rightarrow> string option" where
  "nodeName (Identifier n) = Some n"
| "nodeName _ = None"

section \<open>The resolver-usage traversal\<close>

text \<open>
  \<open>hasNonEmptyResolverCall (node, resolverName)\<close>.  The node may be absent (\<open>None\<close>);
  the resolver name is a string or \<open>undefined\<close> (\<open>None\<close>), which is what the entry point
  passes when the first parameter of the executor is a pattern.  \<open>===\<close> on names is
  equality of \<open>string option\<close>.  Every path of the source returns a boolean and none raises.
  \<open>node.arguments.length > 1 || node.arguments[0] !== undefined\<close>: the elements of
  \<open>arguments\<close> are nodes, so the second disjunct says that the list is not empty.
\<close>

lemma size_member: "x \<in> set xs \<Longrightarrow> size (x :: node) \<le> size_list size xs"
  by (simp add: size_list_estimation')

lemma size_hole:
  "x \<in> set xs \<Longrightarrow> size_option size (x :: node option) \<le> size_list (size_option size) xs"
  by (simp add: size_list_estimation')

lemma size_case:
  "x \<in> set c \<Longrightarrow> c \<in> set cs \<Longrightarrow> size (x :: node) \<le> size_list (size_list size) cs"
  by (meson order_refl size_list_estimation')

function hasNonEmptyResolverCall :: "node option \<Rightarrow> string option \<Rightarrow> bool" where
  "hasNonEmptyResolverCall None resolverName = False"
| "hasNonEmptyResolverCall (Some (Call _ callee arguments)) resolverName =
     (nodeName callee = resolverName \<and> (length arguments > 1 \<or> arguments \<noteq> [])
      \<or> list_ex (\<lambda>nde. nodeType nde = ''Identifier'' \<and> nodeName nde = resolverName
                        \<or> hasNonEmptyResolverCall (Some nde) resolverName) arguments)"
| "hasNonEmptyResolverCall (Some (Expression _ expression)) resolverName =
     hasNonEmptyResolverCall (Some expression) resolverName"
| "hasNonEmptyResolverCall (Some (ClassBody body)) resolverName =
     list_ex (\<lambda>bodyNode. hasNonEmptyResolverCall (Some bodyNode) resolverName) body"
| "hasNonEmptyResolverCall (Some (BlockStatement body)) resolverName =
     list_ex (\<lambda>bodyNode. hasNonEmptyResolverCall (Some bodyNode) resolverName) body"
| "hasNonEmptyResolverCall (Some (Function _ _ params body)) resolverName =
     (if (case params of [] \<Rightarrow> None | p # _ \<Rightarrow> nodeName p) = resolverName then False
      else hasNonEmptyResolverCall (Some body) resolverName)"
| "hasNonEmptyResolverCall (Some (Wrapper _ body)) resolverName =
     hasNonEmptyResolverCall (Some body) resolverName"
| "hasNonEmptyResolverCall (Some (ForStatement _ body)) resolverName =
     hasNonEmptyResolverCall (Some body) resolverName"
| "hasNonEmptyResolverCall (Some (Loop _ _ body)) resolverName =
     hasNonEmptyResolverCall (Some body) resolverName"
| "hasNonEmptyResolverCall (Some (ConditionalExpression test consequent alternate)) resolverName =
     (hasNonEmptyResolverCall (Some test) resolverName
      \<or> hasNonEmptyResolverCall (Some consequent) resolverName
      \<or> hasNonEmptyResolverCall (Some alternate) resolverName)"
| "hasNonEmptyResolverCall (Some (IfStatement test consequent alternate)) resolverName =
     (hasNonEmptyResolverCall (Some test) resolverName
      \<or> hasNonEmptyResolverCall (Some consequent) resolverName
      \<or> hasNonEmptyResolverCall alternate resolverName)"
| "hasNonEmptyResolverCall (Some (TryStatement block handlerBody finalizer)) resolverName =
     (hasNonEmptyResolverCall (Some block) resolverName
      \<or> hasNonEmptyResolverCall handlerBody resolverName
      \<or> hasNonEmptyResolverCall finalizer resolverName)"
| "hasNonEmptyResolverCall (Some (SwitchStatement cases)) resolverName =
     list_ex (\<lambda>consequent.
        list_ex (\<lambda>nde. hasNonEmptyResolverCall (Some nde) resolverName) consequent) cases"
| "hasNonEmptyResolverCall (Some (Array _ elements)) resolverName =
     list_ex (\<lambda>element. hasNonEmptyResolverCall element resolverName) elements"
| "hasNonEmptyResolverCall (Some (AssignmentPattern right)) resolverName =
     hasNonEmptyResolverCall (Some right) resolverName"
| "hasNonEmptyResolverCall (Some (Binary _ left right)) resolverName =
     (hasNonEmptyResolverCall (Some left) resolverName
      \<or> hasNonEmptyResolverCall (Some right) resolverName)"
| "hasNonEmptyResolverCall (Some (Sequence _ expressions)) resolverName =
     list_ex (\<lambda>subExpression. hasNonEmptyResolverCall (Some subExpression) resolverName)
       expressions"
| "hasNonEmptyResolverCall (Some (Object _ properties)) resolverName =
     list_ex (\<lambda>property. hasNonEmptyResolverCall (Some property) resolverName) properties"
| "hasNonEmptyResolverCall (Some (Method _ decorators computed key val)) resolverName =
     ((case decorators of None \<Rightarrow> False
       | Some ds \<Rightarrow> list_ex (\<lambda>decorator. hasNonEmptyResolverCall (Some decorator) resolverName) ds)
      \<or> computed \<and> hasNonEmptyResolverCall (Some key) resolverName
      \<or> hasNonEmptyResolverCall (Some val) resolverName)"
| "hasNonEmptyResolverCall (Some (PropertyNode _ computed key val)) resolverName =
     (computed \<and> hasNonEmptyResolverCall (Some key) resolverName
      \<or> hasNonEmptyResolverCall val resolverName)"
| "hasNonEmptyResolverCall (Some (ObjectMethod computed key arguments)) resolverName =
     (computed \<and> hasNonEmptyResolverCall (Some key) resolverName
      \<or> list_ex (\<lambda>nde. hasNonEmptyResolverCall (Some nde) resolverName) arguments)"
| "hasNonEmptyResolverCall (Some (Class _ body)) resolverName =
     hasNonEmptyResolverCall (Some body) resolverName"
| "hasNonEmptyResolverCall (Some (Argument _ argument)) resolverName =
     hasNonEmptyResolverCall argument resolverName"
| "hasNonEmptyResolverCall (Some (VariableDeclaration declarations)) resolverName =
     list_ex (\<lambda>nde. hasNonEmptyResolverCall (Some nde) resolverName) declarations"
| "hasNonEmptyResolverCall (Some (VariableDeclarator ident init)) resolverName =
     (hasNonEmptyResolverCall (Some ident) resolverName
      \<or> hasNonEmptyResolverCall init resolverName)"
| "hasNonEmptyResolverCall (Some (TaggedTemplateExpression quasi)) resolverName =
     hasNonEmptyResolverCall (Some quasi) resolverName"
| "hasNonEmptyResolverCall (Some (Member _ object property)) resolverName =
     (hasNonEmptyResolverCall (Some object) resolverName
      \<or> hasNonEmptyResolverCall (Some property) resolverName)"
| "hasNonEmptyResolverCall (Some (ImportNode _ source)) resolverName =
     hasNonEmptyResolverCall source resolverName"
| "hasNonEmptyResolverCall (Some (ReturnStatement argument)) resolverName =
     (if argument = None then False else hasNonEmptyResolverCall argument resolverName)"
| "hasNonEmptyResolverCall (Some (Identifier _)) resolverName = False"
| "hasNonEmptyResolverCall (Some (Literal _)) resolverName = False"
| "hasNonEmptyResolverCall (Some (Signature _ _)) resolverName = False"
| "hasNonEmptyResolverCall (Some ThrowStatement) resolverName = False"
| "hasNonEmptyResolverCall (Some BreakStatement) resolverName = False"
| "hasNonEmptyResolverCall (Some (NewExpression _ _ _)) resolverName = False"
| "hasNonEmptyResolverCall (Some (Other _)) resolverName = False"
  by pat_completeness auto
termination
  by (relation "measure (\<lambda>(n, r). size_option size n)")
     (auto simp: less_Suc_eq_le size_case dest!: size_member size_hole)


section \<open>Values and errors of the return-value traversals\<close>

text \<open>
  \<open>hasReturnValue\<close> is documented to return \<open>boolean|undefined\<close>, and the operators
  \<open>&&\<close> and \<open>||\<close> of the source return one of their operands, so the result of a traversal
  is a JavaScript value: a boolean, \<open>undefined\<close> or \<open>null\<close>.  Two exceptions can leave a
  traversal: the \<open>Error\<close> whose message is \<open>Null return\<close>, thrown on an argument-less
  return, and the \<open>TypeError\<close> of calling \<open>some\<close> on a \<open>body.body\<close> that is not an array.
\<close>

datatype jsval = JSBool bool | JSUndefined | JSNull

datatype error = NullReturn | TypeError

fun truthy :: "jsval \<Rightarrow> bool" where
  "truthy (JSBool b) = b"
| "truthy JSUndefined = False"
| "truthy JSNull = False"

text \<open>\<open>a || b\<close> and \<open>a && b\<close>: the right operand is evaluated only when the left one
  does not decide, so an exception of the left operand is the exception of the whole.\<close>

fun orE :: "error + jsval \<Rightarrow> error + jsval \<Rightarrow> error + jsval" where
  "orE (Inl e) b = Inl e"
| "orE (Inr v) b = (if truthy v then Inr v else b)"

fun andE :: "error + jsval \<Rightarrow> error + jsval \<Rightarrow> error + jsval" where
  "andE (Inl e) b = Inl e"
| "andE (Inr v) b = (if truthy v then b else Inr v)"

text \<open>\<open>Array.prototype.some\<close> over the results of the callback, from left to right: it
  stops with \<open>true\<close> at the first truthy result, and an exception of the callback ends it.\<close>

fun someE :: "(error + jsval) list \<Rightarrow> error + jsval" where
  "someE [] = Inr (JSBool False)"
| "someE (Inl e # rs) = Inl e"
| "someE (Inr v # rs) = (if truthy v then Inr (JSBool True) else someE rs)"

section \<open>The deferred-value classifier\<close>

text \<open>\<open>isNewPromiseExpression\<close>: used as a condition only, so its truthiness is kept.\<close>

fun isNewPromiseExpression :: "node option \<Rightarrow> bool" where
  "isNewPromiseExpression (Some (NewExpression callee _ _)) =
     (nodeType callee = ''Identifier'' \<and> nodeName callee = Some ''Promise'')"
| "isNewPromiseExpression _ = False"

text \<open>\<open>isVoidPromise\<close>: \<open>node?.typeParameters?.params?.[0]?.type === 'TSVoidKeyword'\<close>.
  The source applies it only to a node that \<open>isNewPromiseExpression\<close> has accepted; type
  parameters are kept for that kind alone.\<close>

fun isVoidPromise :: "node option \<Rightarrow> bool" where
  "isVoidPromise (Some (NewExpression _ _ (Some (p # _)))) = (nodeType p = ''TSVoidKeyword'')"
| "isVoidPromise _ = False"

definition undefinedKeywords :: "string list" where
  "undefinedKeywords = [''TSVoidKeyword'', ''TSUndefinedKeyword'', ''TSNeverKeyword'']"

text \<open>The signature-only kinds, in both traversals:
  \<open>type = node?.returnType?.typeAnnotation?.type; return type && !undefinedKeywords.has(type)\<close>.
  A type tag is a non-empty string, so \<open>type &&\<close> tests that the annotation is there.\<close>

fun signatureHasValue :: "node option \<Rightarrow> error + jsval" where
  "signatureHasValue None = Inr JSUndefined"
| "signatureHasValue (Some typeAnnotation) =
     Inr (JSBool (nodeType typeAnnotation \<notin> set undefinedKeywords))"

section \<open>The existence traversal\<close>

text \<open>
  \<open>hasReturnValue (node, throwOnNullReturn, promFilter)\<close>.  The filter is optional
  (\<open>promFilter && \<dots>\<close>) and returns a boolean.
\<close>

function hasReturnValue ::
  "node option \<Rightarrow> bool \<Rightarrow> (node \<Rightarrow> bool) option \<Rightarrow> error + jsval" where
  "hasReturnValue None throwOnNullReturn promFilter = Inr (JSBool False)"
| "hasReturnValue (Some (Signature _ returnType)) throwOnNullReturn promFilter =
     signatureHasValue returnType"
| "hasReturnValue (Some (Method MethodDefinition _ _ _ val)) throwOnNullReturn promFilter =
     hasReturnValue (Some val) throwOnNullReturn promFilter"
| "hasReturnValue (Some (Function _ expression _ body)) throwOnNullReturn promFilter =
     orE (Inr (JSBool (expression \<and>
            (\<not> isNewPromiseExpression (Some body) \<or> \<not> isVoidPromise (Some body)))))
         (hasReturnValue (Some body) throwOnNullReturn promFilter)"
| "hasReturnValue (Some (BlockStatement body)) throwOnNullReturn promFilter =
     someE (map (\<lambda>bodyNode.
        andE (Inr (JSBool (nodeType bodyNode \<noteq> ''FunctionDeclaration'')))
             (hasReturnValue (Some bodyNode) throwOnNullReturn promFilter)) body)"
| "hasReturnValue (Some (Wrapper _ body)) throwOnNullReturn promFilter =
     hasReturnValue (Some body) throwOnNullReturn promFilter"
| "hasReturnValue (Some (ForStatement _ body)) throwOnNullReturn promFilter =
     hasReturnValue (Some body) throwOnNullReturn promFilter"
| "hasReturnValue (Some (Loop _ _ body)) throwOnNullReturn promFilter =
     hasReturnValue (Some body) throwOnNullReturn promFilter"
| "hasReturnValue (Some (IfStatement _ consequent alternate)) throwOnNullReturn promFilter =
     orE (hasReturnValue (Some consequent) throwOnNullReturn promFilter)
         (hasReturnValue alternate throwOnNullReturn promFilter)"
| "hasReturnValue (Some (TryStatement block handlerBody finalizer)) throwOnNullReturn promFilter =
     orE (orE (hasReturnValue (Some block) throwOnNullReturn promFilter)
              (hasReturnValue handlerBody throwOnNullReturn promFilter))
         (hasReturnValue finalizer throwOnNullReturn promFilter)"
| "hasReturnValue (Some (SwitchStatement cases)) throwOnNullReturn promFilter =
     someE (map (\<lambda>consequent.
        someE (map (\<lambda>nde. hasReturnValue (Some nde) throwOnNullReturn promFilter) consequent))
       cases)"
| "hasReturnValue (Some (ReturnStatement None)) throwOnNullReturn promFilter =
     (if throwOnNullReturn then Inl NullReturn else Inr (JSBool False))"
| "hasReturnValue (Some (ReturnStatement (Some argument))) throwOnNullReturn promFilter =
     (case promFilter of
        Some callerFilter \<Rightarrow>
          if isNewPromiseExpression (Some argument) then Inr (JSBool (callerFilter argument))
          else Inr (JSBool True)
      | None \<Rightarrow> Inr (JSBool True))"
| "hasReturnValue (Some (Method ClassMethod _ _ _ _)) throwOnNullReturn promFilter =
     Inr (JSBool False)"
| "hasReturnValue (Some (Identifier _)) throwOnNullReturn promFilter = Inr (JSBool False)"
| "hasReturnValue (Some (Literal _)) throwOnNullReturn promFilter = Inr (JSBool False)"
| "hasReturnValue (Some (ClassBody _)) throwOnNullReturn promFilter = Inr (JSBool False)"
| "hasReturnValue (Some (ConditionalExpression _ _ _)) throwOnNullReturn promFilter =
     Inr (JSBool False)"
| "hasReturnValue (Some ThrowStatement) throwOnNullReturn promFilter = Inr (JSBool False)"
| "hasReturnValue (Some BreakStatement) throwOnNullReturn promFilter = Inr (JSBool False)"
| "hasReturnValue (Some (NewExpression _ _ _)) throwOnNullReturn promFilter = Inr (JSBool False)"
| "hasReturnValue (Some (Call _ _ _)) throwOnNullReturn promFilter = Inr (JSBool False)"
| "hasReturnValue (Some (Expression _ _)) throwOnNullReturn promFilter = Inr (JSBool False)"
| "hasReturnValue (Some (Array _ _)) throwOnNullReturn promFilter = Inr (JSBool False)"
| "hasReturnValue (Some (AssignmentPattern _)) throwOnNullReturn promFilter = Inr (JSBool False)"
| "hasReturnValue (Some (Binary _ _ _)) throwOnNullReturn promFilter = Inr (JSBool False)"
| "hasReturnValue (Some (Sequence _ _)) throwOnNullReturn promFilter = Inr (JSBool False)"
| "hasReturnValue (Some (Object _ _)) throwOnNullReturn promFilter = Inr (JSBool False)"
| "hasReturnValue (Some (PropertyNode _ _ _ _)) throwOnNullReturn promFilter = Inr (JSBool False)"
| "hasReturnValue (Some (ObjectMethod _ _ _)) throwOnNullReturn promFilter = Inr (JSBool False)"
| "hasReturnValue (Some (Class _ _)) throwOnNullReturn promFilter = Inr (JSBool False)"
| "hasReturnValue (Some (Argument _ _)) throwOnNullReturn promFilter = Inr (JSBool False)"
| "hasReturnValue (Some (VariableDeclaration _)) throwOnNullReturn promFilter = Inr (JSBool False)"
| "hasReturnValue (Some (VariableDeclarator _ _)) throwOnNullReturn promFilter =
     Inr (JSBool False)"
| "hasReturnValue (Some (TaggedTemplateExpression _)) throwOnNullReturn promFilter =
     Inr (JSBool False)"
| "hasReturnValue (Some (Member _ _ _)) throwOnNullReturn promFilter = Inr (JSBool False)"
| "hasReturnValue (Some (ImportNode _ _)) throwOnNullReturn promFilter = Inr (JSBool False)"
| "hasReturnValue (Some (Other _)) throwOnNullReturn promFilter = Inr (JSBool False)"
  by pat_completeness auto
termination
  by (relation "measure (\<lambda>(n, t, f). size_option size n)")
     (auto simp: less_Suc_eq_le size_case dest!: size_member)


section \<open>The exhaustiveness traversal\<close>

text \<open>\<open>node.body.slice(-1)[0]\<close>: the last statement, \<open>undefined\<close> for an empty block.\<close>

definition lastBodyNode :: "node list \<Rightarrow> node option" where
  "lastBodyNode body = (if body = [] then None else Some (last body))"

text \<open>\<open>node.body.body.some((nde) => nde.type === 'ReturnStatement')\<close> on the body of a
  function: of the kinds that can be reached here only a block (or class body) has an array
  as its \<open>body\<close>; on any other body \<open>node.body.body\<close> is not an array and the call of
  \<open>some\<close> throws a \<open>TypeError\<close>.\<close>

fun bodyHasReturnStatement :: "node \<Rightarrow> error + jsval" where
  "bodyHasReturnStatement (BlockStatement body) =
     Inr (JSBool (list_ex (\<lambda>nde. nodeType nde = ''ReturnStatement'') body))"
| "bodyHasReturnStatement (ClassBody body) =
     Inr (JSBool (list_ex (\<lambda>nde. nodeType nde = ''ReturnStatement'') body))"
| "bodyHasReturnStatement _ = Inl TypeError"

text \<open>The immediately invoked function of the \<open>TryStatement\<close> case: it runs the existence
  traversal with \<open>throwOnNullReturn\<close> over the finalizer, returns false when that throws
  \<open>Null return\<close>, rethrows anything else, and returns true otherwise.\<close>

fun finalizerHasNoNullReturn :: "error + jsval \<Rightarrow> error + jsval" where
  "finalizerHasNoNullReturn (Inl NullReturn) = Inr (JSBool False)"
| "finalizerHasNoNullReturn (Inl e) = Inl e"
| "finalizerHasNoNullReturn (Inr _) = Inr (JSBool True)"

text \<open>The test of the \<open>SwitchStatement\<close> case on one statement of a case.\<close>

fun isBreakOrNullReturn :: "node \<Rightarrow> bool" where
  "isBreakOrNullReturn consNode =
     (nodeType consNode = ''BreakStatement''
      \<or> nodeType consNode = ''ReturnStatement'' \<and> consNode = ReturnStatement None)"

lemma size_lastBodyNode: "size_option size (lastBodyNode body) \<le> Suc (size_list size body)"
  by (simp add: lastBodyNode_def size_member)

function allBrancheshaveReturnValues ::
  "node option \<Rightarrow> (node \<Rightarrow> bool) option \<Rightarrow> error + jsval" where
  "allBrancheshaveReturnValues None promFilter = Inr (JSBool False)"
| "allBrancheshaveReturnValues (Some (Signature _ returnType)) promFilter =
     signatureHasValue returnType"
| "allBrancheshaveReturnValues (Some (Function _ expression _ body)) promFilter =
     orE (orE (Inr (JSBool (expression \<and>
                 (\<not> isNewPromiseExpression (Some body) \<or> \<not> isVoidPromise (Some body)))))
              (allBrancheshaveReturnValues (Some body) promFilter))
         (bodyHasReturnStatement body)"
| "allBrancheshaveReturnValues (Some (BlockStatement body)) promFilter =
     allBrancheshaveReturnValues (lastBodyNode body) promFilter"
| "allBrancheshaveReturnValues (Some (Loop _ test body)) promFilter =
     (if test = Literal (LitBool True) then hasReturnValue (Some body) False promFilter
      else allBrancheshaveReturnValues (Some body) promFilter)"
| "allBrancheshaveReturnValues (Some (Wrapper _ body)) promFilter =
     allBrancheshaveReturnValues (Some body) promFilter"
| "allBrancheshaveReturnValues (Some (ForStatement _ body)) promFilter =
     allBrancheshaveReturnValues (Some body) promFilter"
| "allBrancheshaveReturnValues (Some (IfStatement _ consequent alternate)) promFilter =
     andE (allBrancheshaveReturnValues (Some consequent) promFilter)
          (allBrancheshaveReturnValues alternate promFilter)"
| "allBrancheshaveReturnValues (Some (TryStatement block handlerBody finalizer)) promFilter =
     orE (if finalizer = None then Inr JSNull
          else allBrancheshaveReturnValues finalizer promFilter)
         (andE (andE (allBrancheshaveReturnValues (Some block) promFilter)
                     (if handlerBody = None then Inr (JSBool True)
                      else allBrancheshaveReturnValues handlerBody promFilter))
               (if finalizer = None then Inr (JSBool True)
                else finalizerHasNoNullReturn (hasReturnValue finalizer True promFilter)))"
| "allBrancheshaveReturnValues (Some (SwitchStatement cases)) promFilter =
     Inr (JSBool (list_all (\<lambda>consequent. \<not> list_ex isBreakOrNullReturn consequent) cases))"
| "allBrancheshaveReturnValues (Some ThrowStatement) promFilter = Inr (JSBool True)"
| "allBrancheshaveReturnValues (Some (ReturnStatement None)) promFilter = Inr (JSBool False)"
| "allBrancheshaveReturnValues (Some (ReturnStatement (Some argument))) promFilter =
     (case promFilter of
        Some callerFilter \<Rightarrow>
          if isNewPromiseExpression (Some argument) then Inr (JSBool (callerFilter argument))
          else Inr (JSBool True)
      | None \<Rightarrow> Inr (JSBool True))"
| "allBrancheshaveReturnValues (Some (Method _ _ _ _ _)) promFilter = Inr (JSBool False)"
| "allBrancheshaveReturnValues (Some (Identifier _)) promFilter = Inr (JSBool False)"
| "allBrancheshaveReturnValues (Some (Literal _)) promFilter = Inr (JSBool False)"
| "allBrancheshaveReturnValues (Some (ClassBody _)) promFilter = Inr (JSBool False)"
| "allBrancheshaveReturnValues (Some (ConditionalExpression _ _ _)) promFilter =
     Inr (JSBool False)"
| "allBrancheshaveReturnValues (Some BreakStatement) promFilter = Inr (JSBool False)"
| "allBrancheshaveReturnValues (Some (NewExpression _ _ _)) promFilter = Inr (JSBool False)"
| "allBrancheshaveReturnValues (Some (Call _ _ _)) promFilter = Inr (JSBool False)"
| "allBrancheshaveReturnValues (Some (Expression _ _)) promFilter = Inr (JSBool False)"
| "allBrancheshaveReturnValues (Some (Array _ _)) promFilter = Inr (JSBool False)"
| "allBrancheshaveReturnValues (Some (AssignmentPattern _)) promFilter = Inr (JSBool False)"
| "allBrancheshaveReturnValues (Some (Binary _ _ _)) promFilter = Inr (JSBool False)"
| "allBrancheshaveReturnValues (Some (Sequence _ _)) promFilter = Inr (JSBool False)"
| "allBrancheshaveReturnValues (Some (Object _ _)) promFilter = Inr (JSBool False)"
| "allBrancheshaveReturnValues (Some (PropertyNode _ _ _ _)) promFilter = Inr (JSBool False)"
| "allBrancheshaveReturnValues (Some (ObjectMethod _ _ _)) promFilter = Inr (JSBool False)"
| "allBrancheshaveReturnValues (Some (Class _ _)) promFilter = Inr (JSBool False)"
| "allBrancheshaveReturnValues (Some (Argument _ _)) promFilter = Inr (JSBool False)"
| "allBrancheshaveReturnValues (Some (VariableDeclaration _)) promFilter = Inr (JSBool False)"
| "allBrancheshaveReturnValues (Some (VariableDeclarator _ _)) promFilter = Inr (JSBool False)"
| "allBrancheshaveReturnValues (Some (TaggedTemplateExpression _)) promFilter =
     Inr (JSBool False)"
| "allBrancheshaveReturnValues (Some (Member _ _ _)) promFilter = Inr (JSBool False)"
| "allBrancheshaveReturnValues (Some (ImportNode _ _)) promFilter = Inr (JSBool False)"
| "allBrancheshaveReturnValues (Some (Other _)) promFilter = Inr (JSBool False)"
  by pat_completeness auto
termination
  by (relation "measure (\<lambda>(n, f). size_option size n)")
     (auto simp: less_Suc_eq_le size_lastBodyNode)

section \<open>The entry point\<close>

text \<open>
  The filter that \<open>hasValueOrExecutorHasNonEmptyResolveValue\<close> hands to the traversals.
  \<open>[{params, body} = {}] = prom.arguments\<close> takes the two properties of the first argument,
  or of \<open>{}\<close> when there is none; of the kinds above only a function has \<open>params\<close>, so on
  any other first argument \<open>params?.length\<close> is \<open>undefined\<close> and the filter returns false.
  \<open>resolverName\<close> is the \<open>name\<close> of the first parameter, \<open>undefined\<close> when that is a pattern.
  The traversals call the filter on a \<open>NewExpression\<close> only.
\<close>

fun promiseFilter :: "bool \<Rightarrow> node \<Rightarrow> bool" where
  "promiseFilter anyPromiseAsReturn prom =
     (if anyPromiseAsReturn then True
      else if isVoidPromise (Some prom) then False
      else (case prom of
              NewExpression _ (Function _ _ (param # _) body # _) _ \<Rightarrow>
                hasNonEmptyResolverCall (Some body) (nodeName param)
            | _ \<Rightarrow> False))"

text \<open>\<open>hasReturnMethod\<close> when \<open>allBranches\<close> is set: the \<open>try\<close>/\<open>catch\<close> around the
  existence traversal returns false on \<open>Null return\<close> and rethrows anything else; then
  \<open>hasReturn && allBrancheshaveReturnValues(nde, promiseFilter)\<close>.\<close>

fun hasReturnAllBranches :: "node option \<Rightarrow> (node \<Rightarrow> bool) option \<Rightarrow> error + jsval" where
  "hasReturnAllBranches nde promFilter =
     (case hasReturnValue nde True promFilter of
        Inl NullReturn \<Rightarrow> Inr (JSBool False)
      | Inl e \<Rightarrow> Inl e
      | Inr hasReturn \<Rightarrow> andE (Inr hasReturn) (allBrancheshaveReturnValues nde promFilter))"

definition hasValueOrExecutorHasNonEmptyResolveValue ::
  "node option \<Rightarrow> bool \<Rightarrow> bool \<Rightarrow> error + jsval" where
  "hasValueOrExecutorHasNonEmptyResolveValue node anyPromiseAsReturn allBranches =
     (if allBranches then hasReturnAllBranches node (Some (promiseFilter anyPromiseAsReturn))
      else hasReturnValue node False (Some (promiseFilter anyPromiseAsReturn)))"


section \<open>The nodes inside a node, and those the resolver-usage traversal visits\<close>

text \<open>
  \<open>childNodes\<close> lists every child that the tree keeps of a node, whatever the field, and
  \<open>occursIn m n\<close> says that \<open>m\<close> is \<open>n\<close> or lies somewhere below it.
\<close>

fun present :: "node option \<Rightarrow> node list" where
  "present None = []"
| "present (Some n) = [n]"

fun childNodes :: "node \<Rightarrow> node list" where
  "childNodes (Signature _ returnType) = present returnType"
| "childNodes (Method _ decorators _ key val) =
     (case decorators of None \<Rightarrow> [] | Some ds \<Rightarrow> ds) @ [key, val]"
| "childNodes (Function _ _ params body) = params @ [body]"
| "childNodes (BlockStatement body) = body"
| "childNodes (ClassBody body) = body"
| "childNodes (Loop _ test body) = [test, body]"
| "childNodes (ForStatement test body) = present test @ [body]"
| "childNodes (Wrapper _ body) = [body]"
| "childNodes (IfStatement test consequent alternate) = [test, consequent] @ present alternate"
| "childNodes (ConditionalExpression test consequent alternate) =
     [test, consequent, alternate]"
| "childNodes (TryStatement block handlerBody finalizer) =
     [block] @ present handlerBody @ present finalizer"
| "childNodes (SwitchStatement cases) = concat cases"
| "childNodes (ReturnStatement argument) = present argument"
| "childNodes (NewExpression callee arguments typeParams) =
     callee # arguments @ (case typeParams of None \<Rightarrow> [] | Some ts \<Rightarrow> ts)"
| "childNodes (Call _ callee arguments) = callee # arguments"
| "childNodes (Expression _ expression) = [expression]"
| "childNodes (Array _ elements) = concat (map present elements)"
| "childNodes (AssignmentPattern right) = [right]"
| "childNodes (Binary _ left right) = [left, right]"
| "childNodes (Sequence _ expressions) = expressions"
| "childNodes (Object _ properties) = properties"
| "childNodes (PropertyNode _ _ key val) = key # present val"
| "childNodes (ObjectMethod _ key arguments) = key # arguments"
| "childNodes (Class _ body) = [body]"
| "childNodes (Argument _ argument) = present argument"
| "childNodes (VariableDeclaration declarations) = declarations"
| "childNodes (VariableDeclarator ident init) = ident # present init"
| "childNodes (TaggedTemplateExpression quasi) = [quasi]"
| "childNodes (Member _ object property) = [object, property]"
| "childNodes (ImportNode _ source) = present source"
| "childNodes _ = []"

inductive occursIn :: "node \<Rightarrow> node \<Rightarrow> bool" for m where
  self: "occursIn m m"
| child: "c \<in> set (childNodes n) \<Longrightarrow> occursIn m c \<Longrightarrow> occursIn m n"

text \<open>
  \<open>visitedChildren\<close> is read off the recursive calls of \<open>hasNonEmptyResolverCall\<close> in the
  source, case by case: the children of a node on which the traversal for the resolver
  \<open>r\<close> calls itself.  For a call these are its \<open>arguments\<close> and not its \<open>callee\<close>; for a
  loop its \<open>body\<close> and not its \<open>test\<close>; for a function its \<open>body\<close>, unless
  \<open>params[0]?.name === resolverName\<close>; a computed \<open>key\<close> only; and none for the kinds of
  the \<open>default\<close> case, a \<open>NewExpression\<close> among them.  \<open>visited r n m\<close> says that the
  traversal started on \<open>n\<close> can come to \<open>m\<close> through these calls.
\<close>

fun visitedChildren :: "string option \<Rightarrow> node \<Rightarrow> node list" where
  "visitedChildren r (Call _ callee arguments) = arguments"
| "visitedChildren r (Expression _ expression) = [expression]"
| "visitedChildren r (ClassBody body) = body"
| "visitedChildren r (BlockStatement body) = body"
| "visitedChildren r (Function _ _ params body) =
     (if (case params of [] \<Rightarrow> None | p # _ \<Rightarrow> nodeName p) = r then [] else [body])"
| "visitedChildren r (Wrapper _ body) = [body]"
| "visitedChildren r (ForStatement _ body) = [body]"
| "visitedChildren r (Loop _ _ body) = [body]"
| "visitedChildren r (ConditionalExpression test consequent alternate) =
     [test, consequent, alternate]"
| "visitedChildren r (IfStatement test consequent alternate) =
     [test, consequent] @ present alternate"
| "visitedChildren r (TryStatement block handlerBody finalizer) =
     [block] @ present handlerBody @ present finalizer"
| "visitedChildren r (SwitchStatement cases) = concat cases"
| "visitedChildren r (Array _ elements) = concat (map present elements)"
| "visitedChildren r (AssignmentPattern right) = [right]"
| "visitedChildren r (Binary _ left right) = [left, right]"
| "visitedChildren r (Sequence _ expressions) = expressions"
| "visitedChildren r (Object _ properties) = properties"
| "visitedChildren r (Method _ decorators computed key val) =
     (case decorators of None \<Rightarrow> [] | Some ds \<Rightarrow> ds) @ (if computed then [key] else []) @ [val]"
| "visitedChildren r (PropertyNode _ computed key val) =
     (if computed then [key] else []) @ present val"
| "visitedChildren r (ObjectMethod computed key arguments) =
     (if computed then [key] else []) @ arguments"
| "visitedChildren r (Class _ body) = [body]"
| "visitedChildren r (Argument _ argument) = present argument"
| "visitedChildren r (VariableDeclaration declarations) = declarations"
| "visitedChildren r (VariableDeclarator ident init) = [ident] @ present init"
| "visitedChildren r (TaggedTemplateExpression quasi) = [quasi]"
| "visitedChildren r (Member _ object property) = [object, property]"
| "visitedChildren r (ImportNode _ source) = present source"
| "visitedChildren r (ReturnStatement argument) = present argument"
| "visitedChildren r _ = []"

inductive visited :: "string option \<Rightarrow> node \<Rightarrow> node \<Rightarrow> bool" for r where
  here: "visited r n n"
| below: "c \<in> set (visitedChildren r n) \<Longrightarrow> visited r c m \<Longrightarrow> visited r n m"

section \<open>Functions with blocks as bodies\<close>

text \<open>
  In the tree of a parsed program a function that stands where a statement is expected is
  a declaration, and its body is a block.  \<open>functionsHaveBlocks\<close> says so of every function
  that the exhaustiveness traversal can meet below a node.
\<close>

fun isBlockStatement :: "node \<Rightarrow> bool" where
  "isBlockStatement (BlockStatement _) = True"
| "isBlockStatement _ = False"

fun functionsHaveBlocks :: "node \<Rightarrow> bool" where
  "functionsHaveBlocks (Function _ _ _ body) =
     (isBlockStatement body \<and> functionsHaveBlocks body)"
| "functionsHaveBlocks (BlockStatement body) = list_all functionsHaveBlocks body"
| "functionsHaveBlocks (Loop _ _ body) = functionsHaveBlocks body"
| "functionsHaveBlocks (Wrapper _ body) = functionsHaveBlocks body"
| "functionsHaveBlocks (ForStatement _ body) = functionsHaveBlocks body"
| "functionsHaveBlocks (IfStatement _ consequent alternate) =
     (functionsHaveBlocks consequent
      \<and> (case alternate of None \<Rightarrow> True | Some a \<Rightarrow> functionsHaveBlocks a))"
| "functionsHaveBlocks (TryStatement block handlerBody finalizer) =
     (functionsHaveBlocks block
      \<and> (case handlerBody of None \<Rightarrow> True | Some h \<Rightarrow> functionsHaveBlocks h)
      \<and> (case finalizer of None \<Rightarrow> True | Some z \<Rightarrow> functionsHaveBlocks z))"
| "functionsHaveBlocks _ = True"

section \<open>Exceptions of the traversals\<close>

lemma truthy_iff: "truthy v \<longleftrightarrow> v = JSBool True"
  by (cases v) auto

lemma someE_Inl: "someE rs = Inl e \<Longrightarrow> Inl e \<in> set rs"
  by (induction rs rule: someE.induct) (auto split: if_splits)

lemma orE_Inl: "orE a b = Inl e \<Longrightarrow> a = Inl e \<or> b = Inl e"
  by (cases a) (auto split: if_splits)

lemma andE_Inl: "andE a b = Inl e \<Longrightarrow> a = Inl e \<or> b = Inl e"
  by (cases a) (auto split: if_splits)

lemma andE_True: "andE a b = Inr (JSBool True) \<longleftrightarrow> a = Inr (JSBool True) \<and> b = Inr (JSBool True)"
  by (cases a) (auto simp: truthy_iff)

lemma signatureHasValue_returns: "signatureHasValue returnType \<noteq> Inl e"
  by (cases returnType) auto

text \<open>The existence traversal throws nothing but \<open>Null return\<close>, and only when asked to.\<close>

lemma hasReturnValue_error:
  "hasReturnValue n t f = Inl e \<Longrightarrow> e = NullReturn \<and> t"
proof (induction n t f rule: hasReturnValue.induct)
  case (5 body throwOnNullReturn promFilter)
  from "5.prems" obtain bodyNode where b: "bodyNode \<in> set body"
    and "andE (Inr (JSBool (nodeType bodyNode \<noteq> ''FunctionDeclaration'')))
           (hasReturnValue (Some bodyNode) throwOnNullReturn promFilter) = Inl e"
    by (auto dest!: someE_Inl)
  then have "hasReturnValue (Some bodyNode) throwOnNullReturn promFilter = Inl e"
    by (auto split: if_splits)
  with b show ?case by (rule "5.IH")
next
  case (11 cases throwOnNullReturn promFilter)
  from "11.prems" obtain consequent where c: "consequent \<in> set cases"
    and "someE (map (\<lambda>nde. hasReturnValue (Some nde) throwOnNullReturn promFilter) consequent)
           = Inl e"
    by (auto dest!: someE_Inl)
  then obtain nde where n: "nde \<in> set consequent"
    and "hasReturnValue (Some nde) throwOnNullReturn promFilter = Inl e"
    by (auto dest!: someE_Inl)
  with c show ?case by (rule "11.IH")
qed (auto simp: signatureHasValue_returns dest!: orE_Inl split: if_splits option.splits)

lemma finalizer_check_returns:
  "finalizerHasNoNullReturn (hasReturnValue n True f) \<noteq> Inl e"
proof (cases "hasReturnValue n True f")
  case (Inl e')
  then have "e' = NullReturn" by (simp add: hasReturnValue_error)
  with Inl show ?thesis by simp
next
  case (Inr v)
  then show ?thesis by simp
qed

lemma finalizer_check_True:
  "finalizerHasNoNullReturn (hasReturnValue n True f) = Inr (JSBool True)
   \<longleftrightarrow> hasReturnValue n True f \<noteq> Inl NullReturn"
  by (cases "hasReturnValue n True f") (auto dest: hasReturnValue_error)

lemma bodyHasReturnStatement_error: "bodyHasReturnStatement body = Inl e \<Longrightarrow> e = TypeError"
  by (cases body) auto

text \<open>The exhaustiveness traversal throws nothing but the \<open>TypeError\<close>: the \<open>Null return\<close>
  of the existence traversal it starts on a finalizer is caught.\<close>

lemma allBranches_error:
  "allBrancheshaveReturnValues n f = Inl e \<Longrightarrow> e = TypeError"
proof (induction n f rule: allBrancheshaveReturnValues.induct)
  case (3 uu expression uv body promFilter)
  then show ?case
    by (auto dest!: orE_Inl bodyHasReturnStatement_error split: if_splits)
qed (auto simp: signatureHasValue_returns finalizer_check_returns
      dest!: orE_Inl andE_Inl hasReturnValue_error split: if_splits option.splits)

lemma isBlockStatement_body: "isBlockStatement body \<Longrightarrow> bodyHasReturnStatement body \<noteq> Inl e"
  by (cases body) auto

text \<open>On a node below which every function has a block as its body, the exhaustiveness
  traversal throws nothing at all.\<close>

lemma allBranches_returns:
  "(case n of None \<Rightarrow> True | Some x \<Rightarrow> functionsHaveBlocks x) \<Longrightarrow>
   allBrancheshaveReturnValues n f \<noteq> Inl e"
proof (induction n f rule: allBrancheshaveReturnValues.induct)
  case (4 body promFilter)
  then show ?case
    by (auto simp: lastBodyNode_def list_all_iff split: if_splits)
qed (auto simp: signatureHasValue_returns finalizer_check_returns isBlockStatement_body
       dest!: orE_Inl andE_Inl hasReturnValue_error split: option.splits if_splits)

lemma isNewPromiseExpression_cases:
  "isNewPromiseExpression (Some prom) \<Longrightarrow>
   \<exists>callee arguments typeParams. prom = NewExpression callee arguments typeParams"
  by (cases prom) auto

lemma present_iff: "c \<in> set (present x) \<longleftrightarrow> x = Some c"
  by (cases x) auto


lemma visitedChildren_childNodes: "set (visitedChildren r n) \<subseteq> set (childNodes n)"
  by (cases n) (auto split: option.splits)

lemma visited_occursIn: "visited r n m \<Longrightarrow> occursIn m n"
  by (induction rule: visited.induct)
     (use visitedChildren_childNodes in \<open>auto intro: occursIn.intros\<close>)


text \<open>Conversely, the traversal returns true only for a visited call whose callee has the
  name of the resolver and that has an argument, or that has the identifier of the resolver
  among its arguments: \<open>visitedChildren\<close> leaves out no position that the source visits.
  And what is visited lies inside the node.\<close>

lemma resolver_usage_reaches:
  "hasNonEmptyResolverCall n r \<Longrightarrow>
   \<exists>node kind callee arguments. n = Some node \<and> visited r node (Call kind callee arguments)
     \<and> (nodeName callee = r \<and> arguments \<noteq> []
         \<or> (\<exists>a \<in> set arguments. nodeType a = ''Identifier'' \<and> nodeName a = r))"
proof (induction n r rule: hasNonEmptyResolverCall.induct)
qed (fastforce simp: list_ex_iff present_iff intro: visited.intros
       split: if_splits option.splits)+

section \<open>The claims\<close>

subsection \<open>C1: a deferred value declared without a value\<close>




subsection \<open>C2: the \<open>Null return\<close> exception\<close>

text \<open>
  Counterexample to C2 as stated.  \<open>hasReturnValue\<close> is exported with its parameter
  \<open>throwOnNullReturn\<close>; called with that flag on \<open>return;\<close> it throws \<open>Null return\<close>
  to its caller.
\<close>

theorem null_return_escapes_counterexample:
  "hasReturnValue (Some (ReturnStatement None)) True None = Inl NullReturn"
  by simp

text \<open>
  C2, as amended: \<open>Null return\<close> never leaves \<open>hasValueOrExecutorHasNonEmptyResolveValue\<close>,
  whatever the node and the flags, and never leaves the exported \<open>hasReturnValue\<close> when it
  is called with \<open>throwOnNullReturn\<close> false.
\<close>

theorem null_return_contained:
  "hasValueOrExecutorHasNonEmptyResolveValue node anyPromiseAsReturn allBranches \<noteq> Inl NullReturn
   \<and> hasReturnValue node False promFilter \<noteq> Inl NullReturn"
  by (auto simp: hasValueOrExecutorHasNonEmptyResolveValue_def
      dest: hasReturnValue_error allBranches_error andE_Inl split: sum.splits error.splits)

theorem null_return_contained_witness:
  "hasReturnValue (Some (BlockStatement [ReturnStatement None])) True
     (Some (promiseFilter False)) = Inl NullReturn
   \<and> hasValueOrExecutorHasNonEmptyResolveValue (Some (BlockStatement [ReturnStatement None]))
       False True \<noteq> Inl NullReturn
   \<and> hasReturnValue (Some (BlockStatement [ReturnStatement None])) False None \<noteq> Inl NullReturn"
  using null_return_contained [of "Some (BlockStatement [ReturnStatement None])" False True None]
  by simp

subsection \<open>C3: the decision as a composition of the two traversals\<close>

text \<open>
  C3: with \<open>allBranches\<close> set, the decision is the existence traversal run with
  \<open>throwOnNullReturn\<close>, its exception turned into false (by \<open>hasReturnValue_error\<close> that
  exception can only be \<open>Null return\<close>), and, only when that result is true, the
  exhaustiveness traversal of the same node; a falsy existence result is the decision, and
  the exhaustiveness traversal is not consulted.  Without \<open>allBranches\<close> the decision is the
  plain existence traversal.  Both traversals get the filter of the entry point.
\<close>

theorem decision_composition:
  "hasValueOrExecutorHasNonEmptyResolveValue node anyPromiseAsReturn True =
     (case hasReturnValue node True (Some (promiseFilter anyPromiseAsReturn)) of
        Inl e \<Rightarrow> Inr (JSBool False)
      | Inr hasReturn \<Rightarrow>
          if truthy hasReturn
          then allBrancheshaveReturnValues node (Some (promiseFilter anyPromiseAsReturn))
          else Inr hasReturn)
   \<and> hasValueOrExecutorHasNonEmptyResolveValue node anyPromiseAsReturn False =
       hasReturnValue node False (Some (promiseFilter anyPromiseAsReturn))"
  by (auto simp: hasValueOrExecutorHasNonEmptyResolveValue_def
      dest: hasReturnValue_error split: sum.splits error.splits)

theorem decision_composition_witness:
  "hasValueOrExecutorHasNonEmptyResolveValue
     (Some (BlockStatement [IfStatement (Identifier ''x'')
        (BlockStatement [ReturnStatement (Some (Literal (LitNumber 1)))]) None])) False True
     = Inr (JSBool False)
   \<and> hasValueOrExecutorHasNonEmptyResolveValue
     (Some (BlockStatement [IfStatement (Identifier ''x'')
        (BlockStatement [ReturnStatement (Some (Literal (LitNumber 1)))]) None])) False False
     = Inr (JSBool True)"
  using decision_composition [of
      "Some (BlockStatement [IfStatement (Identifier ''x'')
        (BlockStatement [ReturnStatement (Some (Literal (LitNumber 1)))]) None])" False]
  by (simp add: lastBodyNode_def)

subsection \<open>C4: exhaustiveness of a \<open>try\<close> statement\<close>

text \<open>
  C4: if the finalizer exists and is exhaustive, the \<open>try\<close> statement is exhaustive whatever
  its block and handler are; otherwise it is exhaustive iff the block is, the body of the
  handler (if there is a handler) is, and the existence traversal of the finalizer (if there
  is one) with \<open>throwOnNullReturn\<close> does not throw \<open>Null return\<close>.  The assumption says that
  the exhaustiveness traversal of the finalizer returns.  It throws (a \<open>TypeError\<close>, see
  \<open>bodyHasReturnStatement\<close>) only on a tree that holds a function without a block as body
  where a statement is expected; by \<open>allBranches_returns\<close> it returns on every finalizer
  that satisfies \<open>functionsHaveBlocks\<close>, as the finalizer of a parsed program does.
\<close>

theorem try_exhaustiveness:
  assumes "allBrancheshaveReturnValues finalizer promFilter \<noteq> Inl TypeError"
  shows "(finalizer \<noteq> None
          \<and> allBrancheshaveReturnValues finalizer promFilter = Inr (JSBool True)
          \<longrightarrow> allBrancheshaveReturnValues
                (Some (TryStatement block handlerBody finalizer)) promFilter
              = Inr (JSBool True))
       \<and> (\<not> (finalizer \<noteq> None
               \<and> allBrancheshaveReturnValues finalizer promFilter = Inr (JSBool True))
          \<longrightarrow> (allBrancheshaveReturnValues
                 (Some (TryStatement block handlerBody finalizer)) promFilter
               = Inr (JSBool True)
               \<longleftrightarrow> allBrancheshaveReturnValues (Some block) promFilter = Inr (JSBool True)
                   \<and> (handlerBody \<noteq> None \<longrightarrow>
                        allBrancheshaveReturnValues handlerBody promFilter = Inr (JSBool True))
                   \<and> (finalizer \<noteq> None \<longrightarrow>
                        hasReturnValue finalizer True promFilter \<noteq> Inl NullReturn)))"
proof -
  from assms obtain v where fin: "allBrancheshaveReturnValues finalizer promFilter = Inr v"
    by (cases "allBrancheshaveReturnValues finalizer promFilter") (auto dest: allBranches_error)
  show ?thesis
    by (cases "truthy v") (auto simp: fin finalizer_check_True andE_True truthy_iff)
qed

theorem try_exhaustiveness_witness:
  "allBrancheshaveReturnValues
     (Some (BlockStatement [Expression ExpressionStatement
        (Call CallExpression (Identifier ''done'') [])])) None \<noteq> Inl TypeError
   \<and> allBrancheshaveReturnValues
       (Some (TryStatement
          (BlockStatement [ReturnStatement (Some (Literal (LitNumber 1)))])
          (Some (BlockStatement [ReturnStatement (Some (Literal (LitNumber 2)))]))
          (Some (BlockStatement [Expression ExpressionStatement
             (Call CallExpression (Identifier ''done'') [])]))))
       None = Inr (JSBool True)"
  using try_exhaustiveness [of
      "Some (BlockStatement [Expression ExpressionStatement
         (Call CallExpression (Identifier ''done'') [])])"
      None
      "BlockStatement [ReturnStatement (Some (Literal (LitNumber 1)))]"
      "Some (BlockStatement [ReturnStatement (Some (Literal (LitNumber 2)))])"]
  by (simp add: lastBodyNode_def)

subsection \<open>C5: exhaustiveness of a loop\<close>

text \<open>
  Counterexample to C5 as stated.  \<open>for (; true; ) { if (x) { return 1; } }\<close> is a loop
  whose test is the literal true; its exhaustiveness is that of its body, false, and not
  the existence of a return value in its body, true: the rule for a test that is literally
  true is written under the cases \<open>WhileStatement\<close> and \<open>DoWhileStatement\<close> only.
\<close>

theorem for_loop_counterexample:
  "allBrancheshaveReturnValues
     (Some (ForStatement (Some (Literal (LitBool True)))
        (BlockStatement [IfStatement (Identifier ''x'')
           (BlockStatement [ReturnStatement (Some (Literal (LitNumber 1)))]) None]))) None
     = Inr (JSBool False)
   \<and> hasReturnValue
       (Some (BlockStatement [IfStatement (Identifier ''x'')
           (BlockStatement [ReturnStatement (Some (Literal (LitNumber 1)))]) None])) False None
     = Inr (JSBool True)"
  by (simp add: lastBodyNode_def)

text \<open>
  C5, as amended: for every \<open>while\<close> or \<open>do\<close>-\<open>while\<close> loop whose test is the literal true,
  the exhaustiveness traversal yields the result of the existence traversal (without
  \<open>throwOnNullReturn\<close>) of the body; for every other loop, that is a \<open>while\<close> or
  \<open>do\<close>-\<open>while\<close> loop with another test and every \<open>for\<close>, \<open>for\<close>-\<open>in\<close> and \<open>for\<close>-\<open>of\<close>
  loop whatever its test, it yields the exhaustiveness of the body.
\<close>

theorem loop_exhaustiveness:
  "allBrancheshaveReturnValues (Some (Loop kind (Literal (LitBool True)) body)) promFilter
     = hasReturnValue (Some body) False promFilter
   \<and> (test \<noteq> Literal (LitBool True) \<longrightarrow>
        allBrancheshaveReturnValues (Some (Loop kind test body)) promFilter
          = allBrancheshaveReturnValues (Some body) promFilter)
   \<and> allBrancheshaveReturnValues (Some (ForStatement forTest body)) promFilter
        = allBrancheshaveReturnValues (Some body) promFilter
   \<and> allBrancheshaveReturnValues (Some (Wrapper ForInStatement body)) promFilter
        = allBrancheshaveReturnValues (Some body) promFilter
   \<and> allBrancheshaveReturnValues (Some (Wrapper ForOfStatement body)) promFilter
        = allBrancheshaveReturnValues (Some body) promFilter"
  by simp

theorem loop_exhaustiveness_witness:
  "Identifier ''x'' \<noteq> Literal (LitBool True)
   \<and> allBrancheshaveReturnValues
       (Some (Loop WhileStatement (Literal (LitBool True))
          (BlockStatement [IfStatement (Identifier ''x'')
             (BlockStatement [ReturnStatement (Some (Literal (LitNumber 1)))]) None]))) None
       = Inr (JSBool True)
   \<and> allBrancheshaveReturnValues
       (Some (Loop WhileStatement (Identifier ''x'')
          (BlockStatement [IfStatement (Identifier ''x'')
             (BlockStatement [ReturnStatement (Some (Literal (LitNumber 1)))]) None]))) None
       = Inr (JSBool False)"
  using loop_exhaustiveness [of WhileStatement
      "BlockStatement [IfStatement (Identifier ''x'')
         (BlockStatement [ReturnStatement (Some (Literal (LitNumber 1)))]) None]"
      None "Identifier ''x''" None]
  by (simp add: lastBodyNode_def)

subsection \<open>C6: exhaustiveness of a \<open>switch\<close> statement\<close>

text \<open>
  C6: the exhaustiveness traversal of a \<open>switch\<close> statement yields true iff no statement
  directly in the statement list of a case is a \<open>break\<close> statement or a return statement
  without argument.
\<close>

theorem switch_exhaustive_iff:
  "allBrancheshaveReturnValues (Some (SwitchStatement cases)) promFilter = Inr (JSBool True)
   \<longleftrightarrow> (\<forall>consequent \<in> set cases. \<forall>consNode \<in> set consequent.
          nodeType consNode \<noteq> ''BreakStatement'' \<and> consNode \<noteq> ReturnStatement None)"
  by (fastforce simp: list_all_iff list_ex_iff)

theorem switch_exhaustive_iff_witness:
  "list_all (list_all (\<lambda>consNode.
       nodeType consNode \<noteq> ''BreakStatement'' \<and> consNode \<noteq> ReturnStatement None))
     [[ReturnStatement (Some (Literal (LitNumber 1)))],
      [ReturnStatement (Some (Literal (LitNumber 2)))]]
   \<and> allBrancheshaveReturnValues
       (Some (SwitchStatement [[ReturnStatement (Some (Literal (LitNumber 1)))],
                               [ReturnStatement (Some (Literal (LitNumber 2)))]])) None
     = Inr (JSBool True)"
  using switch_exhaustive_iff [of
      "[[ReturnStatement (Some (Literal (LitNumber 1)))],
        [ReturnStatement (Some (Literal (LitNumber 2)))]]" None]
  by simp

subsection \<open>C7: calls of the resolver are found\<close>




subsection \<open>C8: a function that shadows the resolver\<close>



subsection \<open>C9: an absent node\<close>

text \<open>
  C9: on an absent node the existence traversal (for either value of \<open>throwOnNullReturn\<close>
  and any filter), the exhaustiveness traversal (for any filter) and the resolver-usage
  traversal (for any resolver name) return false.
\<close>

theorem absent_node_yields_false:
  "hasReturnValue None throwOnNullReturn promFilter = Inr (JSBool False)
   \<and> allBrancheshaveReturnValues None promFilter = Inr (JSBool False)
   \<and> hasNonEmptyResolverCall None resolverName = False"
  by simp

theorem absent_node_yields_false_witness:
  "hasReturnValue None True None = Inr (JSBool False)
   \<and> allBrancheshaveReturnValues None None = Inr (JSBool False)
   \<and> hasNonEmptyResolverCall None (Some ''resolve'') = False"
  using absent_node_yields_false [of True None "Some ''resolve''"]
  by simp

subsection \<open>C10: a function with a return statement directly in its block\<close>

text \<open>
  C10: on a function whose body is a block with a return statement among its direct
  statements, with or without argument, the exhaustiveness traversal yields true, also when
  the last statement of the block is not exhaustive.  The assumption on the last statement
  says that its traversal returns, which by \<open>allBranches_returns\<close> it does whenever the
  statement satisfies \<open>functionsHaveBlocks\<close>.
\<close>

theorem function_with_direct_return:
  assumes "n \<in> set body" and "nodeType n = ''ReturnStatement''"
    and "allBrancheshaveReturnValues (lastBodyNode body) promFilter \<noteq> Inl TypeError"
  shows "allBrancheshaveReturnValues
           (Some (Function kind expression params (BlockStatement body))) promFilter
         = Inr (JSBool True)"
proof (cases "allBrancheshaveReturnValues (lastBodyNode body) promFilter")
  case (Inl e)
  with assms(3) show ?thesis by (auto dest: allBranches_error)
next
  case (Inr v)
  from assms(1,2) have "list_ex (\<lambda>nde. nodeType nde = ''ReturnStatement'') body"
    by (auto simp: list_ex_iff)
  with Inr show ?thesis by (simp add: truthy_iff)
qed

theorem function_with_direct_return_witness:
  "ReturnStatement None \<in> set [ReturnStatement None, Expression ExpressionStatement
       (Call CallExpression (Identifier ''done'') [])]
   \<and> allBrancheshaveReturnValues (lastBodyNode [ReturnStatement None,
       Expression ExpressionStatement (Call CallExpression (Identifier ''done'') [])]) None
     = Inr (JSBool False)
   \<and> allBrancheshaveReturnValues
       (Some (Function FunctionDeclaration False []
          (BlockStatement [ReturnStatement None, Expression ExpressionStatement
             (Call CallExpression (Identifier ''done'') [])]))) None
     = Inr (JSBool True)"
  using function_with_direct_return [of "ReturnStatement None"
      "[ReturnStatement None, Expression ExpressionStatement
          (Call CallExpression (Identifier ''done'') [])]"
      None FunctionDeclaration False "[]"]
  by (simp add: lastBodyNode_def)

end
